theory Spec2Isabelle
  imports Complex_Main
begin

unbundle bit_operations_syntax

section \<open>JavaScript numbers\<close>

text \<open>
  Every scalar of the library is a JavaScript \<^verbatim>\<open>number\<close>. The boxes of \<^verbatim>\<open>box3\<close>
  use \<^verbatim>\<open>Number.POSITIVE_INFINITY\<close> and \<^verbatim>\<open>Number.NEGATIVE_INFINITY\<close> as data, and
  arithmetic on them produces \<^verbatim>\<open>NaN\<close>, so the model keeps the three special values
  beside the finite numbers. Finite arithmetic is exact real arithmetic: rounding,
  overflow to infinity and the sign of zero are not modelled. A sum or product of
  finite numbers is therefore finite here, where binary64 may round it or overflow
  (\<^verbatim>\<open>1e200 * 1e200\<close> is \<^verbatim>\<open>Infinity\<close>, \<^verbatim>\<open>-0.5 - 5e15\<close> is \<^verbatim>\<open>-5e15\<close>). A property
  below that computes with finite numbers is a property of exact real arithmetic and
  says so, or it bounds its inputs so that no product can overflow; the properties
  that only compare numbers, or only meet infinities and \<^verbatim>\<open>NaN\<close>, hold of binary64 as
  they stand.
\<close>

datatype jsnum = Fin real | PInf | NInf | NaN

instantiation jsnum :: "{plus, minus, uminus, times, inverse, abs, ord}"
begin

fun plus_jsnum :: "jsnum \<Rightarrow> jsnum \<Rightarrow> jsnum" where
  "plus_jsnum (Fin x) (Fin y) = Fin (x + y)"
| "plus_jsnum NaN _ = NaN"
| "plus_jsnum _ NaN = NaN"
| "plus_jsnum PInf NInf = NaN"
| "plus_jsnum NInf PInf = NaN"
| "plus_jsnum PInf _ = PInf"
| "plus_jsnum _ PInf = PInf"
| "plus_jsnum NInf _ = NInf"
| "plus_jsnum _ NInf = NInf"

fun uminus_jsnum :: "jsnum \<Rightarrow> jsnum" where
  "uminus_jsnum (Fin x) = Fin (- x)"
| "uminus_jsnum PInf = NInf"
| "uminus_jsnum NInf = PInf"
| "uminus_jsnum NaN = NaN"

definition minus_jsnum :: "jsnum \<Rightarrow> jsnum \<Rightarrow> jsnum" where
  "minus_jsnum a b = a + (- b)"

fun times_jsnum :: "jsnum \<Rightarrow> jsnum \<Rightarrow> jsnum" where
  "times_jsnum (Fin x) (Fin y) = Fin (x * y)"
| "times_jsnum NaN _ = NaN"
| "times_jsnum _ NaN = NaN"
| "times_jsnum PInf (Fin y) = (if y = 0 then NaN else if 0 < y then PInf else NInf)"
| "times_jsnum NInf (Fin y) = (if y = 0 then NaN else if 0 < y then NInf else PInf)"
| "times_jsnum (Fin x) PInf = (if x = 0 then NaN else if 0 < x then PInf else NInf)"
| "times_jsnum (Fin x) NInf = (if x = 0 then NaN else if 0 < x then NInf else PInf)"
| "times_jsnum PInf PInf = PInf"
| "times_jsnum PInf NInf = NInf"
| "times_jsnum NInf PInf = NInf"
| "times_jsnum NInf NInf = PInf"

fun divide_jsnum :: "jsnum \<Rightarrow> jsnum \<Rightarrow> jsnum" where
  "divide_jsnum (Fin x) (Fin y) =
     (if y = 0 then (if x = 0 then NaN else if 0 < x then PInf else NInf)
      else Fin (x / y))"
| "divide_jsnum NaN _ = NaN"
| "divide_jsnum _ NaN = NaN"
| "divide_jsnum (Fin x) _ = Fin 0"
| "divide_jsnum PInf (Fin y) = (if 0 \<le> y then PInf else NInf)"
| "divide_jsnum NInf (Fin y) = (if 0 \<le> y then NInf else PInf)"
| "divide_jsnum _ _ = NaN"

definition inverse_jsnum :: "jsnum \<Rightarrow> jsnum" where
  "inverse_jsnum a = divide (Fin 1) a"

fun abs_jsnum :: "jsnum \<Rightarrow> jsnum" where
  "abs_jsnum (Fin x) = Fin \<bar>x\<bar>"
| "abs_jsnum PInf = PInf"
| "abs_jsnum NInf = PInf"
| "abs_jsnum NaN = NaN"

fun less_jsnum :: "jsnum \<Rightarrow> jsnum \<Rightarrow> bool" where
  "less_jsnum (Fin x) (Fin y) = (x < y)"
| "less_jsnum NaN _ = False"
| "less_jsnum _ NaN = False"
| "less_jsnum NInf NInf = False"
| "less_jsnum NInf _ = True"
| "less_jsnum _ NInf = False"
| "less_jsnum PInf _ = False"
| "less_jsnum _ PInf = True"

fun less_eq_jsnum :: "jsnum \<Rightarrow> jsnum \<Rightarrow> bool" where
  "less_eq_jsnum (Fin x) (Fin y) = (x \<le> y)"
| "less_eq_jsnum NaN _ = False"
| "less_eq_jsnum _ NaN = False"
| "less_eq_jsnum NInf _ = True"
| "less_eq_jsnum _ PInf = True"
| "less_eq_jsnum _ _ = False"

instance ..

end

text \<open>\<^verbatim>\<open>Math.min\<close>, \<^verbatim>\<open>Math.max\<close> and \<^verbatim>\<open>Math.sqrt\<close>: a \<^verbatim>\<open>NaN\<close> argument gives \<^verbatim>\<open>NaN\<close>.\<close>

definition Math_min :: "jsnum \<Rightarrow> jsnum \<Rightarrow> jsnum" where
  "Math_min a b = (if a = NaN \<or> b = NaN then NaN else if b < a then b else a)"

definition Math_max :: "jsnum \<Rightarrow> jsnum \<Rightarrow> jsnum" where
  "Math_max a b = (if a = NaN \<or> b = NaN then NaN else if a < b then b else a)"

fun Math_sqrt :: "jsnum \<Rightarrow> jsnum" where
  "Math_sqrt (Fin x) = (if x < 0 then NaN else Fin (sqrt x))"
| "Math_sqrt PInf = PInf"
| "Math_sqrt NInf = NaN"
| "Math_sqrt NaN = NaN"

text \<open>
  The arrays \<^verbatim>\<open>Vec3\<close>, \<^verbatim>\<open>Mat3\<close>, \<^verbatim>\<open>Mat4\<close> and the flat \<^verbatim>\<open>Box3\<close> are lists of
  numbers read by index, \<^verbatim>\<open>v[i]\<close> being \<open>v ! i\<close>. The type declarations themselves
  (\<^verbatim>\<open>./types\<close>) are not among the sources; the records \<open>Sphere\<close>, \<open>Plane3\<close>,
  \<open>Raycast3\<close>, \<open>IntersectsTriangleResult\<close> and \<open>OBB3\<close> below have the fields that the
  functions read and write.
\<close>

type_synonym Vec3 = "jsnum list"
type_synonym Mat3 = "jsnum list"
type_synonym Mat4 = "jsnum list"
type_synonym Box3 = "jsnum list"

section \<open>box3: axis-aligned boxes \<^verbatim>\<open>[minX, minY, minZ, maxX, maxY, maxZ]\<close>\<close>

definition box3_create :: "Box3" where
  "box3_create = [PInf, PInf, PInf, NInf, NInf, NInf]"

definition box3_containsPoint :: "Box3 \<Rightarrow> Vec3 \<Rightarrow> bool" where
  "box3_containsPoint box point \<longleftrightarrow>
     box ! 0 \<le> point ! 0 \<and> point ! 0 \<le> box ! 3 \<and>
     box ! 1 \<le> point ! 1 \<and> point ! 1 \<le> box ! 4 \<and>
     box ! 2 \<le> point ! 2 \<and> point ! 2 \<le> box ! 5"

definition box3_containsBox3 :: "Box3 \<Rightarrow> Box3 \<Rightarrow> bool" where
  "box3_containsBox3 container contained_box \<longleftrightarrow>
     container ! 0 \<le> contained_box ! 0 \<and> contained_box ! 3 \<le> container ! 3 \<and>
     container ! 1 \<le> contained_box ! 1 \<and> contained_box ! 4 \<le> container ! 4 \<and>
     container ! 2 \<le> contained_box ! 2 \<and> contained_box ! 5 \<le> container ! 5"

definition box3_intersectsBox3 :: "Box3 \<Rightarrow> Box3 \<Rightarrow> bool" where
  "box3_intersectsBox3 boxA boxB \<longleftrightarrow>
     boxA ! 0 \<le> boxB ! 3 \<and> boxB ! 0 \<le> boxA ! 3 \<and>
     boxA ! 1 \<le> boxB ! 4 \<and> boxB ! 1 \<le> boxA ! 4 \<and>
     boxA ! 2 \<le> boxB ! 5 \<and> boxB ! 2 \<le> boxA ! 5"

text \<open>A valid box of the data model: \<open>min \<le> max\<close> on each axis.\<close>

definition box3_valid :: "Box3 \<Rightarrow> bool" where
  "box3_valid box \<longleftrightarrow> box ! 0 \<le> box ! 3 \<and> box ! 1 \<le> box ! 4 \<and> box ! 2 \<le> box ! 5"

section \<open>vec3, mat3, mat4: the vector algebra the kernel calls\<close>

text \<open>
  The modules \<^verbatim>\<open>vec3\<close>, \<^verbatim>\<open>mat3\<close> and \<^verbatim>\<open>mat4\<close> are not among the sources at hand. The
  spec takes them as a correct small-vector algebra, and the functions the kernel calls
  are modelled from that. Matrices are column-major, as the callers read them
  (\<^verbatim>\<open>e[0..2]\<close> is the first column of a \<^verbatim>\<open>Mat4\<close>, \<^verbatim>\<open>e[12..14]\<close> its translation).
\<close>

text \<open>Modelled from the spec: \<^verbatim>\<open>vec3.subtract(out, a, b)\<close>, the difference \<open>a - b\<close>
  component by component.\<close>

definition vec3_subtract :: "Vec3 \<Rightarrow> Vec3 \<Rightarrow> Vec3" where
  "vec3_subtract a b = [a ! 0 - b ! 0, a ! 1 - b ! 1, a ! 2 - b ! 2]"

text \<open>Modelled from the spec: \<^verbatim>\<open>vec3.dot(a, b)\<close>, the dot product.\<close>

definition vec3_dot :: "Vec3 \<Rightarrow> Vec3 \<Rightarrow> jsnum" where
  "vec3_dot a b = a ! 0 * b ! 0 + a ! 1 * b ! 1 + a ! 2 * b ! 2"

text \<open>Modelled from the spec: \<^verbatim>\<open>vec3.cross(out, a, b)\<close>, the cross product \<open>a \<times> b\<close>.\<close>

definition vec3_cross :: "Vec3 \<Rightarrow> Vec3 \<Rightarrow> Vec3" where
  "vec3_cross a b =
     [a ! 1 * b ! 2 - a ! 2 * b ! 1,
      a ! 2 * b ! 0 - a ! 0 * b ! 2,
      a ! 0 * b ! 1 - a ! 1 * b ! 0]"

text \<open>Modelled from the spec: \<^verbatim>\<open>vec3.transformMat4(out, a, m)\<close>, the point \<open>a\<close> taken
  through the matrix: the 3x3 part applied to \<open>a\<close>, plus the translation column.\<close>

definition vec3_transformMat4 :: "Vec3 \<Rightarrow> Mat4 \<Rightarrow> Vec3" where
  "vec3_transformMat4 a m =
     [m ! 0 * a ! 0 + m ! 4 * a ! 1 + m ! 8 * a ! 2 + m ! 12,
      m ! 1 * a ! 0 + m ! 5 * a ! 1 + m ! 9 * a ! 2 + m ! 13,
      m ! 2 * a ! 0 + m ! 6 * a ! 1 + m ! 10 * a ! 2 + m ! 14]"

text \<open>Modelled from the spec: \<^verbatim>\<open>mat3.fromMat4(out, a)\<close>, the upper-left 3x3 part of a
  4x4 matrix.\<close>

definition mat3_fromMat4 :: "Mat4 \<Rightarrow> Mat3" where
  "mat3_fromMat4 a = [a ! 0, a ! 1, a ! 2, a ! 4, a ! 5, a ! 6, a ! 8, a ! 9, a ! 10]"

text \<open>Modelled from the spec: \<^verbatim>\<open>mat3.multiply(out, a, b)\<close>, the matrix product \<open>a b\<close>
  (\<open>b\<close> is applied first).\<close>

definition mat3_multiply :: "Mat3 \<Rightarrow> Mat3 \<Rightarrow> Mat3" where
  "mat3_multiply a b =
     [b ! 0 * a ! 0 + b ! 1 * a ! 3 + b ! 2 * a ! 6,
      b ! 0 * a ! 1 + b ! 1 * a ! 4 + b ! 2 * a ! 7,
      b ! 0 * a ! 2 + b ! 1 * a ! 5 + b ! 2 * a ! 8,
      b ! 3 * a ! 0 + b ! 4 * a ! 3 + b ! 5 * a ! 6,
      b ! 3 * a ! 1 + b ! 4 * a ! 4 + b ! 5 * a ! 7,
      b ! 3 * a ! 2 + b ! 4 * a ! 5 + b ! 5 * a ! 8,
      b ! 6 * a ! 0 + b ! 7 * a ! 3 + b ! 8 * a ! 6,
      b ! 6 * a ! 1 + b ! 7 * a ! 4 + b ! 8 * a ! 7,
      b ! 6 * a ! 2 + b ! 7 * a ! 5 + b ! 8 * a ! 8]"

text \<open>Modelled from the spec: \<^verbatim>\<open>mat4.determinant(a)\<close>, the determinant of a 4x4
  matrix, by 2x2 minors of the first two and the last two columns.\<close>

definition mat4_determinant :: "Mat4 \<Rightarrow> jsnum" where
  "mat4_determinant a =
     (let b0 = a ! 0 * a ! 5 - a ! 1 * a ! 4;
          b1 = a ! 0 * a ! 6 - a ! 2 * a ! 4;
          b2 = a ! 1 * a ! 6 - a ! 2 * a ! 5;
          b3 = a ! 8 * a ! 13 - a ! 9 * a ! 12;
          b4 = a ! 8 * a ! 14 - a ! 10 * a ! 12;
          b5 = a ! 9 * a ! 14 - a ! 10 * a ! 13;
          b6 = a ! 0 * b5 - a ! 1 * b4 + a ! 2 * b3;
          b7 = a ! 4 * b5 - a ! 5 * b4 + a ! 6 * b3;
          b8 = a ! 8 * b2 - a ! 9 * b1 + a ! 10 * b0;
          b9 = a ! 12 * b2 - a ! 13 * b1 + a ! 14 * b0
      in a ! 7 * b6 - a ! 3 * b7 + a ! 15 * b8 - a ! 11 * b9)"

section \<open>box3: the triangle, sphere and plane tests and the matrix transform\<close>

text \<open>
  \<^verbatim>\<open>_satForAxes\<close> reads the scratch vectors \<^verbatim>\<open>_v0\<close>, \<^verbatim>\<open>_v1\<close>, \<^verbatim>\<open>_v2\<close> and
  \<^verbatim>\<open>_extents\<close> that \<^verbatim>\<open>intersectsTriangle3\<close> has just written; here they are arguments.
  The loop counter \<open>i\<close> runs up to \<open>axisCount\<close>; \<^verbatim>\<open>continue\<close> and the fall-through are the
  recursive call, \<^verbatim>\<open>return false\<close> ends the loop.
\<close>

function satForAxes_loop ::
  "Vec3 \<Rightarrow> Vec3 \<Rightarrow> Vec3 \<Rightarrow> Vec3 \<Rightarrow> jsnum list \<Rightarrow> nat \<Rightarrow> nat \<Rightarrow> bool" where
  "satForAxes_loop v0 v1 v2 extents axes axisCount i =
     (if i < axisCount then
        (let ax = axes ! (i * 3 + 0);
             ay = axes ! (i * 3 + 1);
             az = axes ! (i * 3 + 2)
         in if ax = Fin 0 \<and> ay = Fin 0 \<and> az = Fin 0
            then satForAxes_loop v0 v1 v2 extents axes axisCount (i + 1)
            else
              (let p0 = v0 ! 0 * ax + v0 ! 1 * ay + v0 ! 2 * az;
                   p1 = v1 ! 0 * ax + v1 ! 1 * ay + v1 ! 2 * az;
                   p2 = v2 ! 0 * ax + v2 ! 1 * ay + v2 ! 2 * az;
                   minP = p0;
                   maxP = p0;
                   (minP, maxP) = (if p1 < minP then (p1, maxP)
                                   else if maxP < p1 then (minP, p1) else (minP, maxP));
                   (minP, maxP) = (if p2 < minP then (p2, maxP)
                                   else if maxP < p2 then (minP, p2) else (minP, maxP));
                   r = extents ! 0 * \<bar>ax\<bar> + extents ! 1 * \<bar>ay\<bar> + extents ! 2 * \<bar>az\<bar>
               in if maxP < - r \<or> r < minP then False
                  else satForAxes_loop v0 v1 v2 extents axes axisCount (i + 1)))
      else True)"
  by pat_completeness auto
termination
  by (relation "measure (\<lambda>(v0, v1, v2, extents, axes, axisCount, i). axisCount - i)") auto

definition satForAxes :: "Vec3 \<Rightarrow> Vec3 \<Rightarrow> Vec3 \<Rightarrow> Vec3 \<Rightarrow> jsnum list \<Rightarrow> nat \<Rightarrow> bool" where
  "satForAxes v0 v1 v2 extents axes axisCount = satForAxes_loop v0 v1 v2 extents axes axisCount 0"

definition axesBoxFaces :: "jsnum list" where
  "axesBoxFaces = [Fin 1, Fin 0, Fin 0, Fin 0, Fin 1, Fin 0, Fin 0, Fin 0, Fin 1]"

definition box3_intersectsTriangle3 :: "Box3 \<Rightarrow> Vec3 \<Rightarrow> Vec3 \<Rightarrow> Vec3 \<Rightarrow> bool" where
  "box3_intersectsTriangle3 box a b c =
     (if box ! 3 < box ! 0 \<or> box ! 4 < box ! 1 \<or> box ! 5 < box ! 2 then False
      else
        (let center = [(box ! 0 + box ! 3) * Fin 0.5,
                       (box ! 1 + box ! 4) * Fin 0.5,
                       (box ! 2 + box ! 5) * Fin 0.5];
             extents = [box ! 3 - center ! 0, box ! 4 - center ! 1, box ! 5 - center ! 2];
             v0 = [a ! 0 - center ! 0, a ! 1 - center ! 1, a ! 2 - center ! 2];
             v1 = [b ! 0 - center ! 0, b ! 1 - center ! 1, b ! 2 - center ! 2];
             v2 = [c ! 0 - center ! 0, c ! 1 - center ! 1, c ! 2 - center ! 2];
             f0 = [v1 ! 0 - v0 ! 0, v1 ! 1 - v0 ! 1, v1 ! 2 - v0 ! 2];
             f1 = [v2 ! 0 - v1 ! 0, v2 ! 1 - v1 ! 1, v2 ! 2 - v1 ! 2];
             f2 = [v0 ! 0 - v2 ! 0, v0 ! 1 - v2 ! 1, v0 ! 2 - v2 ! 2];
             axesCross =
               [Fin 0, - (f0 ! 2), f0 ! 1,
                Fin 0, - (f1 ! 2), f1 ! 1,
                Fin 0, - (f2 ! 2), f2 ! 1,
                f0 ! 2, Fin 0, - (f0 ! 0),
                f1 ! 2, Fin 0, - (f1 ! 0),
                f2 ! 2, Fin 0, - (f2 ! 0),
                - (f0 ! 1), f0 ! 0, Fin 0,
                - (f1 ! 1), f1 ! 0, Fin 0,
                - (f2 ! 1), f2 ! 0, Fin 0]
         in if \<not> satForAxes v0 v1 v2 extents axesCross 9 then False
            else if \<not> satForAxes v0 v1 v2 extents axesBoxFaces 3 then False
            else
              (let triangleNormal = vec3_cross f0 f1;
                   axisTriangle = [triangleNormal ! 0, triangleNormal ! 1, triangleNormal ! 2]
               in satForAxes v0 v1 v2 extents axisTriangle 1)))"

text \<open>
  In \<^verbatim>\<open>intersectsTriangle3\<close> above and \<^verbatim>\<open>intersectsSphere\<close> below the centre, the half
  extents, the translated vertices and the squares are exact on finite numbers;
  binary64 rounds the sums and lets \<^verbatim>\<open>radius * radius\<close> overflow for a radius above
  about \<open>1.34 \<times> 10\<^sup>1\<^sup>5\<^sup>4\<close>.
\<close>

record Sphere =
  sphere_center :: Vec3
  sphere_radius :: jsnum

record Plane3 =
  plane_normal :: Vec3
  plane_constant :: jsnum

definition box3_intersectsSphere :: "Box3 \<Rightarrow> Sphere \<Rightarrow> bool" where
  "box3_intersectsSphere box sphere =
     (let center = sphere_center sphere;
          radius = sphere_radius sphere;
          closestPoint =
            [if center ! 0 < box ! 0 then box ! 0
             else if box ! 3 < center ! 0 then box ! 3 else center ! 0,
             if center ! 1 < box ! 1 then box ! 1
             else if box ! 4 < center ! 1 then box ! 4 else center ! 1,
             if center ! 2 < box ! 2 then box ! 2
             else if box ! 5 < center ! 2 then box ! 5 else center ! 2];
          dx = closestPoint ! 0 - center ! 0;
          dy = closestPoint ! 1 - center ! 1;
          dz = closestPoint ! 2 - center ! 2
      in dx * dx + dy * dy + dz * dz \<le> radius * radius)"

definition box3_intersectsPlane3 :: "Box3 \<Rightarrow> Plane3 \<Rightarrow> bool" where
  "box3_intersectsPlane3 box plane =
     (let n = plane_normal plane;
          (minDot, maxDot) =
            (if Fin 0 < n ! 0 then (n ! 0 * box ! 0, n ! 0 * box ! 3)
             else (n ! 0 * box ! 3, n ! 0 * box ! 0));
          (minDot, maxDot) =
            (if Fin 0 < n ! 1 then (minDot + n ! 1 * box ! 1, maxDot + n ! 1 * box ! 4)
             else (minDot + n ! 1 * box ! 4, maxDot + n ! 1 * box ! 1));
          (minDot, maxDot) =
            (if Fin 0 < n ! 2 then (minDot + n ! 2 * box ! 2, maxDot + n ! 2 * box ! 5)
             else (minDot + n ! 2 * box ! 5, maxDot + n ! 2 * box ! 2))
      in minDot + plane_constant plane \<le> Fin 0 \<and> Fin 0 \<le> maxDot + plane_constant plane)"

text \<open>
  \<^verbatim>\<open>transformMat4\<close> first resets \<^verbatim>\<open>out\<close> to the empty box and then visits the corners
  \<open>i = 0..7\<close>; \<open>out\<close> is an array of its own, not the input box. The two updates of
  each axis are separate \<^verbatim>\<open>if\<close> statements, so one corner can move both bounds.
\<close>

definition transformMat4_corner :: "Box3 \<Rightarrow> nat \<Rightarrow> Vec3" where
  "transformMat4_corner box i =
     [if i AND 1 = 0 then box ! 0 else box ! 3,
      if i AND 2 = 0 then box ! 1 else box ! 4,
      if i AND 4 = 0 then box ! 2 else box ! 5]"

definition transformMat4_expand :: "Box3 \<Rightarrow> Vec3 \<Rightarrow> Box3" where
  "transformMat4_expand out corner =
     (let out = (if corner ! 0 < out ! 0 then out[0 := corner ! 0] else out);
          out = (if out ! 3 < corner ! 0 then out[3 := corner ! 0] else out);
          out = (if corner ! 1 < out ! 1 then out[1 := corner ! 1] else out);
          out = (if out ! 4 < corner ! 1 then out[4 := corner ! 1] else out);
          out = (if corner ! 2 < out ! 2 then out[2 := corner ! 2] else out);
          out = (if out ! 5 < corner ! 2 then out[5 := corner ! 2] else out)
      in out)"

function transformMat4_loop :: "Box3 \<Rightarrow> Mat4 \<Rightarrow> nat \<Rightarrow> Box3 \<Rightarrow> Box3" where
  "transformMat4_loop box mat i out =
     (if i < 8 then
        transformMat4_loop box mat (i + 1)
          (transformMat4_expand out (vec3_transformMat4 (transformMat4_corner box i) mat))
      else out)"
  by pat_completeness auto
termination
  by (relation "measure (\<lambda>(box, mat, i, out). 8 - i)") auto

definition box3_transformMat4 :: "Box3 \<Rightarrow> Mat4 \<Rightarrow> Box3" where
  "box3_transformMat4 box mat = transformMat4_loop box mat 0 [PInf, PInf, PInf, NInf, NInf, NInf]"

section \<open>raycast3: bounded rays\<close>

record Raycast3 =
  origin :: Vec3
  direction :: Vec3
  ray_length :: jsnum

record IntersectsTriangleResult =
  fraction :: jsnum
  hit :: bool
  frontFacing :: bool

text \<open>
  \<^verbatim>\<open>intersectsTriangle\<close> writes its answer into the caller's \<^verbatim>\<open>out\<close> object; the model
  takes the object as it was before the call and returns it as it is after. The part of
  the function that follows the classification of \<^verbatim>\<open>DdN\<close> is
  \<open>intersectsTriangle_cont\<close>, entered with the \<^verbatim>\<open>sign\<close> and the (now positive)
  \<^verbatim>\<open>DdN\<close> of the branch taken.
\<close>

definition intersectsTriangle_cont ::
  "IntersectsTriangleResult \<Rightarrow> Raycast3 \<Rightarrow> Vec3 \<Rightarrow> Vec3 \<Rightarrow> Vec3 \<Rightarrow> Vec3 \<Rightarrow> jsnum \<Rightarrow> jsnum
     \<Rightarrow> IntersectsTriangleResult" where
  "intersectsTriangle_cont out ray a edge1 edge2 normal DdN sign =
     (let diff = vec3_subtract (origin ray) a;
          temp = vec3_cross diff edge2;
          DdQxE2 = sign * vec3_dot (direction ray) temp
      in if DdQxE2 < Fin 0
         then out\<lparr>hit := False, fraction := Fin 0, frontFacing := False\<rparr>
         else
           (let temp = vec3_cross edge1 diff;
                DdE1xQ = sign * vec3_dot (direction ray) temp
            in if DdE1xQ < Fin 0
               then out\<lparr>hit := False, fraction := Fin 0, frontFacing := False\<rparr>
               else if DdN < DdQxE2 + DdE1xQ
               then out\<lparr>hit := False, fraction := Fin 0, frontFacing := False\<rparr>
               else
                 (let QdN = - sign * vec3_dot diff normal
                  in if QdN < Fin 0
                     then out\<lparr>hit := False, fraction := Fin 0, frontFacing := False\<rparr>
                     else
                       (let t = QdN / DdN
                        in if t \<le> ray_length ray
                           then out\<lparr>hit := True, fraction := t / ray_length ray,
                                    frontFacing := sign < Fin 0\<rparr>
                           else out\<lparr>hit := False, fraction := Fin 0,
                                    frontFacing := False\<rparr>))))"

definition raycast3_intersectsTriangle ::
  "IntersectsTriangleResult \<Rightarrow> Raycast3 \<Rightarrow> Vec3 \<Rightarrow> Vec3 \<Rightarrow> Vec3 \<Rightarrow> bool
     \<Rightarrow> IntersectsTriangleResult" where
  "raycast3_intersectsTriangle out ray a b c backfaceCulling =
     (let edge1 = vec3_subtract b a;
          edge2 = vec3_subtract c a;
          normal = vec3_cross edge1 edge2;
          DdN = vec3_dot (direction ray) normal
      in if Fin 0 < DdN then
           (if backfaceCulling
            then out\<lparr>hit := False, fraction := Fin 0, frontFacing := False\<rparr>
            else intersectsTriangle_cont out ray a edge1 edge2 normal DdN (Fin 1))
         else if DdN < Fin 0 then
           intersectsTriangle_cont out ray a edge1 edge2 normal (- DdN) (Fin (- 1))
         else out\<lparr>hit := False, fraction := Fin 0, frontFacing := False\<rparr>)"

text \<open>
  The slab test reads its box as a pair of corners, \<^verbatim>\<open>aabb[0]\<close> the minimum and
  \<^verbatim>\<open>aabb[1]\<close> the maximum. The loop over the three axes carries \<^verbatim>\<open>tmin\<close> and
  \<^verbatim>\<open>tmax\<close>.
\<close>

function intersectsBox3_loop :: "Raycast3 \<Rightarrow> Vec3 list \<Rightarrow> nat \<Rightarrow> jsnum \<Rightarrow> jsnum \<Rightarrow> bool" where
  "intersectsBox3_loop ray aabb i tmin tmax =
     (if i < 3 then
        (let d = direction ray ! i
         in if \<bar>d\<bar> < Fin (1 / 10 ^ 10) then
              (if origin ray ! i < aabb ! 0 ! i \<or> aabb ! 1 ! i < origin ray ! i then False
               else intersectsBox3_loop ray aabb (i + 1) tmin tmax)
            else
              (let invD = Fin 1 / d;
                   t0 = (aabb ! 0 ! i - origin ray ! i) * invD;
                   t1 = (aabb ! 1 ! i - origin ray ! i) * invD;
                   (t0, t1) = (if invD < Fin 0 then (t1, t0) else (t0, t1));
                   tmin = Math_max tmin t0;
                   tmax = Math_min tmax t1
               in if tmax < tmin then False
                  else intersectsBox3_loop ray aabb (i + 1) tmin tmax))
      else True)"
  by pat_completeness auto
termination
  by (relation "measure (\<lambda>(ray, aabb, i, tmin, tmax). 3 - i)") auto

definition raycast3_intersectsBox3 :: "Raycast3 \<Rightarrow> Vec3 list \<Rightarrow> bool" where
  "raycast3_intersectsBox3 ray aabb = intersectsBox3_loop ray aabb 0 (Fin 0) (ray_length ray)"

section \<open>obb3: oriented boxes\<close>

record OBB3 =
  center :: Vec3
  halfExtents :: Vec3
  rotation :: Mat3

definition obb3_containsPoint :: "OBB3 \<Rightarrow> Vec3 \<Rightarrow> bool" where
  "obb3_containsPoint obb point =
     (let dx = point ! 0 - center obb ! 0;
          dy = point ! 1 - center obb ! 1;
          dz = point ! 2 - center obb ! 2;
          r = rotation obb;
          localPoint = [dx * r ! 0 + dy * r ! 1 + dz * r ! 2,
                        dx * r ! 3 + dy * r ! 4 + dz * r ! 5,
                        dx * r ! 6 + dy * r ! 7 + dz * r ! 8]
      in \<bar>localPoint ! 0\<bar> \<le> halfExtents obb ! 0 \<and>
         \<bar>localPoint ! 1\<bar> \<le> halfExtents obb ! 1 \<and>
         \<bar>localPoint ! 2\<bar> \<le> halfExtents obb ! 2)"

text \<open>
  \<^verbatim>\<open>clampPoint\<close> reads \<^verbatim>\<open>point\<close> before it writes \<^verbatim>\<open>out\<close>, starts \<^verbatim>\<open>out\<close> at the
  centre and adds one clamped axis after the other; the result does not depend on what
  \<^verbatim>\<open>out\<close> held before.
\<close>

definition obb3_clampPoint :: "OBB3 \<Rightarrow> Vec3 \<Rightarrow> Vec3" where
  "obb3_clampPoint obb point =
     (let r = rotation obb;
          xAxis = [r ! 0, r ! 1, r ! 2];
          yAxis = [r ! 3, r ! 4, r ! 5];
          zAxis = [r ! 6, r ! 7, r ! 8];
          dx = point ! 0 - center obb ! 0;
          dy = point ! 1 - center obb ! 1;
          dz = point ! 2 - center obb ! 2;
          out = [center obb ! 0, center obb ! 1, center obb ! 2];
          dist = dx * xAxis ! 0 + dy * xAxis ! 1 + dz * xAxis ! 2;
          dist = Math_max (- (halfExtents obb ! 0)) (Math_min (halfExtents obb ! 0) dist);
          out = [out ! 0 + xAxis ! 0 * dist, out ! 1 + xAxis ! 1 * dist, out ! 2 + xAxis ! 2 * dist];
          dist = dx * yAxis ! 0 + dy * yAxis ! 1 + dz * yAxis ! 2;
          dist = Math_max (- (halfExtents obb ! 1)) (Math_min (halfExtents obb ! 1) dist);
          out = [out ! 0 + yAxis ! 0 * dist, out ! 1 + yAxis ! 1 * dist, out ! 2 + yAxis ! 2 * dist];
          dist = dx * zAxis ! 0 + dy * zAxis ! 1 + dz * zAxis ! 2;
          dist = Math_max (- (halfExtents obb ! 2)) (Math_min (halfExtents obb ! 2) dist);
          out = [out ! 0 + zAxis ! 0 * dist, out ! 1 + zAxis ! 1 * dist, out ! 2 + zAxis ! 2 * dist]
      in out)"






text \<open>
  \<^verbatim>\<open>applyMatrix4\<close> writes the three fields of \<^verbatim>\<open>out\<close>; the model returns the OBB
  written. \<^verbatim>\<open>1 / sx\<close> is JavaScript's division: a zero scale gives an infinite
  inverse.
\<close>

definition obb3_applyMatrix4 :: "OBB3 \<Rightarrow> Mat4 \<Rightarrow> OBB3" where
  "obb3_applyMatrix4 obb matrix =
     (let e = matrix;
          sx = Math_sqrt (e ! 0 * e ! 0 + e ! 1 * e ! 1 + e ! 2 * e ! 2);
          sy = Math_sqrt (e ! 4 * e ! 4 + e ! 5 * e ! 5 + e ! 6 * e ! 6);
          sz = Math_sqrt (e ! 8 * e ! 8 + e ! 9 * e ! 9 + e ! 10 * e ! 10);
          det = mat4_determinant matrix;
          sx = (if det < Fin 0 then - sx else sx);
          rotationMat = mat3_fromMat4 matrix;
          invSX = Fin 1 / sx;
          invSY = Fin 1 / sy;
          invSZ = Fin 1 / sz;
          rotationMat =
            [rotationMat ! 0 * invSX, rotationMat ! 1 * invSX, rotationMat ! 2 * invSX,
             rotationMat ! 3 * invSY, rotationMat ! 4 * invSY, rotationMat ! 5 * invSY,
             rotationMat ! 6 * invSZ, rotationMat ! 7 * invSZ, rotationMat ! 8 * invSZ]
      in \<lparr>center = vec3_transformMat4 (center obb) matrix,
          halfExtents = [halfExtents obb ! 0 * \<bar>sx\<bar>,
                         halfExtents obb ! 1 * \<bar>sy\<bar>,
                         halfExtents obb ! 2 * \<bar>sz\<bar>],
          rotation = mat3_multiply rotationMat (rotation obb)\<rparr>)"

section \<open>Auxiliary notions and the inputs of the examples\<close>

text \<open>A box whose six entries are numbers (possibly infinite), none of them \<^verbatim>\<open>NaN\<close>.\<close>

definition box_no_NaN :: "Box3 \<Rightarrow> bool" where
  "box_no_NaN out \<longleftrightarrow> length out = 6 \<and> (\<forall>k<6. out ! k \<noteq> NaN)"

text \<open>
  Exact real arithmetic: an OBB whose fields are real numbers, the columns of a 3x3
  matrix stored column-major, and what it means for such a matrix to be orthonormal
  (unit columns, mutually orthogonal).
\<close>

type_synonym rvec = "real \<times> real \<times> real"

fun rdot :: "rvec \<Rightarrow> rvec \<Rightarrow> real" where
  "rdot (x0, x1, x2) (y0, y1, y2) = x0 * y0 + x1 * y1 + x2 * y2"


definition frame :: "rvec \<Rightarrow> rvec \<Rightarrow> rvec \<Rightarrow> bool" where
  "frame U V W \<longleftrightarrow> rdot U U = 1 \<and> rdot V V = 1 \<and> rdot W W = 1 \<and>
                  rdot U V = 0 \<and> rdot U W = 0 \<and> rdot V W = 0"



definition rcol :: "real list \<Rightarrow> nat \<Rightarrow> rvec" where
  "rcol r i = (if i = 0 then (r ! 0, r ! 1, r ! 2)
              else if i = 1 then (r ! 3, r ! 4, r ! 5) else (r ! 6, r ! 7, r ! 8))"

definition orthonormal :: "real list \<Rightarrow> bool" where
  "orthonormal r \<longleftrightarrow> length r = 9 \<and> frame (rcol r 0) (rcol r 1) (rcol r 2)"

definition real_obb :: "real list \<Rightarrow> real list \<Rightarrow> real list \<Rightarrow> OBB3" where
  "real_obb c h r = \<lparr>center = map Fin c, halfExtents = map Fin h, rotation = map Fin r\<rparr>"










text \<open>A rotation about \<open>z\<close> with rational entries (the 3-4-5 triangle) and the identity.\<close>

definition rot345 :: "real list" where
  "rot345 = [3 / 5, 4 / 5, 0,  - (4 / 5), 3 / 5, 0,  0, 0, 1]"


text \<open>
  A radius whose square is finite in binary64 as well: up to \<open>10\<^sup>1\<^sup>5\<^sup>4\<close> in absolute value
  the product \<^verbatim>\<open>radius * radius\<close> stays below the largest double.
\<close>

fun squares_without_overflow :: "jsnum \<Rightarrow> bool" where
  "squares_without_overflow (Fin r) = (\<bar>r\<bar> \<le> 10 ^ 154)"
| "squares_without_overflow _ = False"



text \<open>The ray from the origin along \<open>+z\<close> and the box of the ray-box example.\<close>

definition ray_z :: "jsnum \<Rightarrow> Raycast3" where
  "ray_z len = \<lparr>origin = [Fin 0, Fin 0, Fin 0], direction = [Fin 0, Fin 0, Fin 1], ray_length = len\<rparr>"

definition box_2_4 :: "Vec3 list" where
  "box_2_4 = [[Fin (- 1), Fin (- 1), Fin 2], [Fin 1, Fin 1, Fin 4]]"

text \<open>The rotation by a quarter turn and by 45 degrees about the z axis, column-major.\<close>

definition rotZ90 :: "real list" where
  "rotZ90 = [0, 1, 0, 0,  - 1, 0, 0, 0,  0, 0, 1, 0,  0, 0, 0, 1]"

definition rotZ45 :: "real list" where
  "rotZ45 = [sqrt 2 / 2, sqrt 2 / 2, 0, 0,  - (sqrt 2 / 2), sqrt 2 / 2, 0, 0,  0, 0, 1, 0,  0, 0, 0, 1]"

text \<open>A triangle in the plane \<open>z = 0\<close>, a ray lying in that plane, a ray that starts above
  the triangle and points away from it, and a result object left over from an earlier hit.\<close>

definition tri_a :: Vec3 where "tri_a = [Fin 0, Fin 0, Fin 0]"

definition tri_b :: Vec3 where "tri_b = [Fin 1, Fin 0, Fin 0]"

definition tri_c :: Vec3 where "tri_c = [Fin 0, Fin 1, Fin 0]"

definition ray_in_plane :: Raycast3 where
  "ray_in_plane = \<lparr>origin = [Fin (- 1), Fin (1 / 4), Fin 0], direction = [Fin 1, Fin 0, Fin 0],
                    ray_length = Fin 10\<rparr>"

definition ray_away :: Raycast3 where
  "ray_away = \<lparr>origin = [Fin (1 / 4), Fin (1 / 4), Fin 1], direction = [Fin 0, Fin 0, Fin 1],
                ray_length = Fin 10\<rparr>"

definition stale_result :: IntersectsTriangleResult where
  "stale_result = \<lparr>fraction = Fin (1 / 2), hit = True, frontFacing = True\<rparr>"

section \<open>Properties\<close>

declare satForAxes_loop.simps [simp del]
declare transformMat4_loop.simps [simp del]
declare intersectsBox3_loop.simps [simp del]

subsection \<open>Arithmetic and order of JavaScript numbers\<close>

lemma minus_Fin [simp]: "Fin x - Fin y = Fin (x - y)"
  by (simp add: minus_jsnum_def)

lemma Math_max_Fin [simp]: "Math_max (Fin x) (Fin y) = Fin (max x y)"
  by (simp add: Math_max_def max_def)

lemma Math_min_Fin [simp]: "Math_min (Fin x) (Fin y) = Fin (min x y)"
  by (simp add: Math_min_def min_def)

lemma jsnum_le_trans: "(a::jsnum) \<le> b \<Longrightarrow> b \<le> c \<Longrightarrow> a \<le> c"
  by (cases a; cases b; cases c) simp_all

lemma jsnum_le_refl: "(a::jsnum) \<le> b \<Longrightarrow> a \<le> a \<and> b \<le> b"
  by (cases a; cases b) simp_all

lemma PInf_le_iff: "PInf \<le> a \<longleftrightarrow> a = PInf"
  by (cases a) simp_all

lemma le_NInf_iff: "a \<le> NInf \<longleftrightarrow> a = NInf"
  by (cases a) simp_all

lemma le_PInf_iff: "a \<le> PInf \<longleftrightarrow> a \<noteq> NaN"
  by (cases a) simp_all

lemma NInf_le_iff: "NInf \<le> a \<longleftrightarrow> a \<noteq> NaN"
  by (cases a) simp_all

subsection \<open>Ray against box\<close>

text \<open>
  C1 (the claim as stated fails). With length 2 the ray ends exactly on the near face
  \<open>z = 2\<close> of the box: the slab interval is \<open>[2, 2]\<close>, the test \<^verbatim>\<open>tmax < tmin\<close> is strict,
  and the call returns \<^verbatim>\<open>true\<close>.
\<close>

theorem ray_box_length_2_hits:
  "raycast3_intersectsBox3 (ray_z (Fin 2)) box_2_4 = True"
  by (simp add: raycast3_intersectsBox3_def ray_z_def box_2_4_def intersectsBox3_loop.simps Let_def)

text \<open>
  C1, amended: for the ray with origin \<open>[0,0,0]\<close> and direction \<open>[0,0,1]\<close> and the box with
  minimum \<open>[-1,-1,2]\<close> and maximum \<open>[1,1,4]\<close>, \<^verbatim>\<open>intersectsBox3\<close> returns true with length
  10, and with a finite length \<open>len\<close> it returns true exactly when \<open>2 \<le> len\<close>: the ray
  that ends on the face still hits, every shorter ray misses.
\<close>

theorem ray_box_example:
  "raycast3_intersectsBox3 (ray_z (Fin 10)) box_2_4 = True \<and>
   raycast3_intersectsBox3 (ray_z (Fin len)) box_2_4 = (2 \<le> len)"
  by (auto simp add: raycast3_intersectsBox3_def ray_z_def box_2_4_def
      intersectsBox3_loop.simps Let_def)

theorem ray_box_example_witness:
  "raycast3_intersectsBox3 (ray_z (Fin 10)) box_2_4 \<and>
   raycast3_intersectsBox3 (ray_z (Fin 2)) box_2_4 \<and>
   \<not> raycast3_intersectsBox3 (ray_z (Fin 1)) box_2_4"
  using ray_box_example[of 2] ray_box_example[of 1] by simp

subsection \<open>Queries against the empty box\<close>

lemma empty_containsPoint: "box3_containsPoint box3_create p = False"
  unfolding box3_containsPoint_def box3_create_def
  by (cases "p ! 0") simp_all

lemma empty_intersectsTriangle3: "box3_intersectsTriangle3 box3_create a b c = False"
  by (simp add: box3_intersectsTriangle3_def box3_create_def)

lemma empty_container:
  "box3_containsBox3 box3_create other \<longleftrightarrow>
     other ! 0 = PInf \<and> other ! 1 = PInf \<and> other ! 2 = PInf \<and>
     other ! 3 = NInf \<and> other ! 4 = NInf \<and> other ! 5 = NInf"
  unfolding box3_containsBox3_def box3_create_def
  by (auto simp: PInf_le_iff le_NInf_iff)

lemma empty_contained:
  "box3_containsBox3 other box3_create \<longleftrightarrow>
     other ! 0 \<noteq> NaN \<and> other ! 1 \<noteq> NaN \<and> other ! 2 \<noteq> NaN \<and>
     other ! 3 \<noteq> NaN \<and> other ! 4 \<noteq> NaN \<and> other ! 5 \<noteq> NaN"
  unfolding box3_containsBox3_def box3_create_def
  by (auto simp: le_PInf_iff NInf_le_iff)

lemma empty_intersectsBox3:
  "box3_intersectsBox3 box3_create other \<longleftrightarrow>
     other ! 0 = NInf \<and> other ! 1 = NInf \<and> other ! 2 = NInf \<and>
     other ! 3 = PInf \<and> other ! 4 = PInf \<and> other ! 5 = PInf"
  unfolding box3_intersectsBox3_def box3_create_def
  by (auto simp: PInf_le_iff le_NInf_iff)

lemma intersectsBox3_empty:
  "box3_intersectsBox3 other box3_create \<longleftrightarrow>
     other ! 0 = NInf \<and> other ! 1 = NInf \<and> other ! 2 = NInf \<and>
     other ! 3 = PInf \<and> other ! 4 = PInf \<and> other ! 5 = PInf"
  unfolding box3_intersectsBox3_def box3_create_def
  by (auto simp: PInf_le_iff le_NInf_iff)

lemma empty_intersectsSphere_false:
  assumes "sphere_radius s = NaN \<or> squares_without_overflow (sphere_radius s) \<or>
           sphere_center s ! 0 = NaN \<or> sphere_center s ! 1 = NaN \<or> sphere_center s ! 2 = NaN"
  shows "box3_intersectsSphere box3_create s = False"
  using assms unfolding box3_intersectsSphere_def box3_create_def
  by (cases "sphere_center s ! 0"; cases "sphere_center s ! 1"; cases "sphere_center s ! 2";
      cases "sphere_radius s") (simp_all add: minus_jsnum_def Let_def)

lemma empty_intersectsSphere_true:
  assumes "sphere_radius s = PInf \<or> sphere_radius s = NInf"
    and "sphere_center s ! 0 \<noteq> NaN" and "sphere_center s ! 1 \<noteq> NaN"
    and "sphere_center s ! 2 \<noteq> NaN"
  shows "box3_intersectsSphere box3_create s = True"
  using assms unfolding box3_intersectsSphere_def box3_create_def
  by (cases "sphere_center s ! 0"; cases "sphere_center s ! 1"; cases "sphere_center s ! 2";
      cases "sphere_radius s") (simp_all add: minus_jsnum_def Let_def)

lemma empty_intersectsPlane3: "box3_intersectsPlane3 box3_create plane = False"
  unfolding box3_intersectsPlane3_def box3_create_def
  by (cases "plane_normal plane ! 0"; cases "plane_normal plane ! 1";
      cases "plane_normal plane ! 2"; cases "plane_constant plane") (simp_all add: Let_def)

text \<open>
  C2 (the claim as stated fails). The unit box contains the empty box, the empty box
  contains itself, the empty box intersects the box that is infinite in every direction,
  and it intersects a sphere of infinite radius: each of these calls returns \<^verbatim>\<open>true\<close>.
\<close>

theorem empty_box_queries_true:
  "box3_containsBox3 [Fin 0, Fin 0, Fin 0, Fin 1, Fin 1, Fin 1] box3_create = True \<and>
   box3_containsBox3 box3_create box3_create = True \<and>
   box3_intersectsBox3 box3_create [NInf, NInf, NInf, PInf, PInf, PInf] = True \<and>
   box3_intersectsSphere box3_create
     \<lparr>sphere_center = [Fin 0, Fin 0, Fin 0], sphere_radius = PInf\<rparr> = True"
  by (simp add: box3_containsBox3_def box3_intersectsBox3_def box3_intersectsSphere_def
      box3_create_def minus_jsnum_def)

text \<open>
  C2, amended: for the empty sentinel \<open>[+inf,+inf,+inf,-inf,-inf,-inf]\<close>,
  \<^verbatim>\<open>containsPoint\<close>, \<^verbatim>\<open>intersectsTriangle3\<close> and \<^verbatim>\<open>intersectsPlane3\<close> return false for all
  values of the other arguments; \<^verbatim>\<open>containsBox3\<close> with the empty box as the container
  returns false for every contained box except one that is itself the sentinel;
  \<^verbatim>\<open>intersectsBox3\<close> with the empty box on either side returns false for every other box
  except \<open>[-inf,-inf,-inf,+inf,+inf,+inf]\<close>; \<^verbatim>\<open>intersectsSphere\<close> returns false for
  every sphere whose centre has a \<^verbatim>\<open>NaN\<close> or whose radius is \<^verbatim>\<open>NaN\<close> or at most
  \<open>10\<^sup>1\<^sup>5\<^sup>4\<close> in absolute value (so that its square is finite), and true for an infinite
  radius and a centre without \<^verbatim>\<open>NaN\<close>; and \<^verbatim>\<open>containsBox3\<close> with the empty box as the
  contained argument returns true for every container without \<^verbatim>\<open>NaN\<close>, false otherwise.
  All results are booleans. Nothing is said of a finite radius above \<open>10\<^sup>1\<^sup>5\<^sup>4\<close>, whose
  square may overflow.
\<close>

theorem empty_box_queries:
  "box3_containsPoint box3_create p = False \<and>
   box3_intersectsTriangle3 box3_create a b c = False \<and>
   box3_intersectsPlane3 box3_create plane = False \<and>
   box3_containsBox3 box3_create other =
     (other ! 0 = PInf \<and> other ! 1 = PInf \<and> other ! 2 = PInf \<and>
      other ! 3 = NInf \<and> other ! 4 = NInf \<and> other ! 5 = NInf) \<and>
   box3_intersectsBox3 box3_create other =
     (other ! 0 = NInf \<and> other ! 1 = NInf \<and> other ! 2 = NInf \<and>
      other ! 3 = PInf \<and> other ! 4 = PInf \<and> other ! 5 = PInf) \<and>
   box3_intersectsBox3 other box3_create =
     (other ! 0 = NInf \<and> other ! 1 = NInf \<and> other ! 2 = NInf \<and>
      other ! 3 = PInf \<and> other ! 4 = PInf \<and> other ! 5 = PInf) \<and>
   (sphere_radius s = NaN \<or> squares_without_overflow (sphere_radius s) \<or>
    sphere_center s ! 0 = NaN \<or> sphere_center s ! 1 = NaN \<or> sphere_center s ! 2 = NaN
      \<longrightarrow> box3_intersectsSphere box3_create s = False) \<and>
   ((sphere_radius s = PInf \<or> sphere_radius s = NInf) \<and>
    sphere_center s ! 0 \<noteq> NaN \<and> sphere_center s ! 1 \<noteq> NaN \<and> sphere_center s ! 2 \<noteq> NaN
      \<longrightarrow> box3_intersectsSphere box3_create s = True) \<and>
   box3_containsBox3 other box3_create =
     (other ! 0 \<noteq> NaN \<and> other ! 1 \<noteq> NaN \<and> other ! 2 \<noteq> NaN \<and>
      other ! 3 \<noteq> NaN \<and> other ! 4 \<noteq> NaN \<and> other ! 5 \<noteq> NaN)"
  using empty_containsPoint empty_intersectsTriangle3 empty_intersectsPlane3
    empty_container empty_intersectsBox3 intersectsBox3_empty
    empty_intersectsSphere_false[of s] empty_intersectsSphere_true[of s]
    empty_contained
  by blast

theorem empty_box_queries_witness:
  "box3_containsPoint box3_create [Fin 0, Fin 0, Fin 0] = False \<and>
   box3_intersectsTriangle3 box3_create tri_a tri_b tri_c = False \<and>
   box3_intersectsPlane3 box3_create
     \<lparr>plane_normal = [Fin 0, Fin 0, Fin 1], plane_constant = Fin 0\<rparr> = False \<and>
   box3_containsBox3 box3_create [Fin 0, Fin 0, Fin 0, Fin 1, Fin 1, Fin 1] = False \<and>
   box3_intersectsBox3 box3_create [Fin 0, Fin 0, Fin 0, Fin 1, Fin 1, Fin 1] = False \<and>
   box3_intersectsBox3 [Fin 0, Fin 0, Fin 0, Fin 1, Fin 1, Fin 1] box3_create = False \<and>
   squares_without_overflow (Fin 1) \<and>
   box3_intersectsSphere box3_create
     \<lparr>sphere_center = [Fin 0, Fin 0, Fin 0], sphere_radius = Fin 1\<rparr> = False \<and>
   box3_containsBox3 [Fin 0, Fin 0, Fin 0, Fin 1, Fin 1, Fin 1] box3_create = True"
  using empty_box_queries[of "[Fin 0, Fin 0, Fin 0]" tri_a tri_b tri_c
      "\<lparr>plane_normal = [Fin 0, Fin 0, Fin 1], plane_constant = Fin 0\<rparr>"
      "[Fin 0, Fin 0, Fin 0, Fin 1, Fin 1, Fin 1]"
      "\<lparr>sphere_center = [Fin 0, Fin 0, Fin 0], sphere_radius = Fin 1\<rparr>"]
  by simp

subsection \<open>The centre of a transformed OBB\<close>

text \<open>
  C3: for every OBB and every 4x4 matrix (in particular every affine one),
  \<^verbatim>\<open>applyMatrix4\<close> sets the centre of the result to the 3x3 part of the matrix applied to
  the input centre plus the translation column, component by component.
\<close>

theorem applyMatrix4_center:
  "center (obb3_applyMatrix4 obb m) =
     [m ! 0 * center obb ! 0 + m ! 4 * center obb ! 1 + m ! 8 * center obb ! 2 + m ! 12,
      m ! 1 * center obb ! 0 + m ! 5 * center obb ! 1 + m ! 9 * center obb ! 2 + m ! 13,
      m ! 2 * center obb ! 0 + m ! 6 * center obb ! 1 + m ! 10 * center obb ! 2 + m ! 14]"
  by (simp add: obb3_applyMatrix4_def Let_def vec3_transformMat4_def)

text \<open>The quarter turn about \<open>z\<close> takes the centre \<open>[1,0,0]\<close> to \<open>[0,1,0]\<close>, where adding
  the (zero) translation alone would have left it at \<open>[1,0,0]\<close>.\<close>

theorem applyMatrix4_center_witness:
  "center (obb3_applyMatrix4
     \<lparr>center = [Fin 1, Fin 0, Fin 0], halfExtents = [Fin 0.5, Fin 0.5, Fin 0.5],
      rotation = map Fin [1, 0, 0, 0, 1, 0, 0, 0, 1]\<rparr> (map Fin rotZ90)) = [Fin 0, Fin 1, Fin 0]"
  using applyMatrix4_center[of "\<lparr>center = [Fin 1, Fin 0, Fin 0],
      halfExtents = [Fin 0.5, Fin 0.5, Fin 0.5],
      rotation = map Fin [1, 0, 0, 0, 1, 0, 0, 0, 1]\<rparr>" "map Fin rotZ90"]
  by (simp add: rotZ90_def)

subsection \<open>The box of a transformed box\<close>

lemma list6: assumes "length (out::'a list) = 6"
  shows "\<exists>o0 o1 o2 o3 o4 o5. out = [o0, o1, o2, o3, o4, o5]"
  using assms by (simp add: eval_nat_numeral length_Suc_conv) blast

lemma all6: "(\<forall>k<6. P (k::nat)) \<longleftrightarrow> P 0 \<and> P 1 \<and> P 2 \<and> P 3 \<and> P 4 \<and> P 5"
proof -
  have "{..<6::nat} = {0, 1, 2, 3, 4, 5}" by auto
  then have "(\<forall>k<6. P k) \<longleftrightarrow> (\<forall>k\<in>{0, 1, 2, 3, 4, 5}. P k)"
    by (metis lessThan_iff)
  then show ?thesis by simp
qed

lemma box_no_NaN_explicit:
  "box_no_NaN [o0, o1, o2, o3, o4, o5] \<longleftrightarrow>
     o0 \<noteq> NaN \<and> o1 \<noteq> NaN \<and> o2 \<noteq> NaN \<and> o3 \<noteq> NaN \<and> o4 \<noteq> NaN \<and> o5 \<noteq> NaN"
  by (simp add: box_no_NaN_def all6)

lemma containsPoint_explicit:
  "box3_containsPoint [o0, o1, o2, o3, o4, o5] p \<longleftrightarrow>
     o0 \<le> p ! 0 \<and> p ! 0 \<le> o3 \<and> o1 \<le> p ! 1 \<and> p ! 1 \<le> o4 \<and> o2 \<le> p ! 2 \<and> p ! 2 \<le> o5"
  by (simp add: box3_containsPoint_def)

lemma upd_if: "(if b then xs[k := v] else xs) = xs[k := (if b then v else xs ! k)]"
  by simp

lemma expand_explicit:
  "transformMat4_expand [o0, o1, o2, o3, o4, o5] c =
     [if c ! 0 < o0 then c ! 0 else o0,
      if c ! 1 < o1 then c ! 1 else o1,
      if c ! 2 < o2 then c ! 2 else o2,
      if o3 < c ! 0 then c ! 0 else o3,
      if o4 < c ! 1 then c ! 1 else o4,
      if o5 < c ! 2 then c ! 2 else o5]"
  unfolding transformMat4_expand_def upd_if
  by (simp add: Let_def cong: if_cong split del: if_split)

lemma lo_keeps: "(lo::jsnum) \<le> p \<Longrightarrow> (if c < lo then c else lo) \<le> p"
  by (cases lo; cases p; cases c) simp_all

lemma hi_keeps: "(p::jsnum) \<le> hi \<Longrightarrow> p \<le> (if hi < c then c else hi)"
  by (cases hi; cases p; cases c) simp_all

lemma lo_takes: "(lo::jsnum) \<noteq> NaN \<Longrightarrow> (if Fin x < lo then Fin x else lo) \<le> Fin x"
  by (cases lo) simp_all

lemma hi_takes: "(hi::jsnum) \<noteq> NaN \<Longrightarrow> Fin x \<le> (if hi < Fin x then Fin x else hi)"
  by (cases hi) simp_all

lemma lo_no_NaN: "(b::jsnum) \<noteq> NaN \<Longrightarrow> (if c < b then c else b) \<noteq> NaN"
  by (cases b; cases c) simp_all

lemma hi_no_NaN: "(b::jsnum) \<noteq> NaN \<Longrightarrow> (if b < c then c else b) \<noteq> NaN"
  by (cases b; cases c) simp_all

lemma expand_no_NaN: assumes "box_no_NaN out" shows "box_no_NaN (transformMat4_expand out c)"
proof -
  from assms have l: "length out = 6" by (simp add: box_no_NaN_def)
  obtain o0 o1 o2 o3 o4 o5 where e: "out = [o0, o1, o2, o3, o4, o5]"
    using list6[OF l] by blast
  from assms show ?thesis
    unfolding e expand_explicit box_no_NaN_explicit
    by (intro conjI lo_no_NaN hi_no_NaN) simp_all
qed

lemma expand_keeps:
  assumes "length out = 6" and "box3_containsPoint out p"
  shows "box3_containsPoint (transformMat4_expand out c) p"
proof -
  obtain o0 o1 o2 o3 o4 o5 where e: "out = [o0, o1, o2, o3, o4, o5]"
    using list6[OF assms(1)] by blast
  from assms(2) show ?thesis
    unfolding e expand_explicit containsPoint_explicit
    by (intro conjI lo_keeps hi_keeps) simp_all
qed

lemma expand_takes:
  assumes "box_no_NaN out"
  shows "box3_containsPoint (transformMat4_expand out [Fin x, Fin y, Fin z]) [Fin x, Fin y, Fin z]"
proof -
  from assms have l: "length out = 6" by (simp add: box_no_NaN_def)
  obtain o0 o1 o2 o3 o4 o5 where e: "out = [o0, o1, o2, o3, o4, o5]"
    using list6[OF l] by blast
  have n: "[Fin x, Fin y, Fin z] ! 0 = Fin x" "[Fin x, Fin y, Fin z] ! 1 = Fin y"
    "[Fin x, Fin y, Fin z] ! 2 = Fin z" by simp_all
  from assms show ?thesis
    unfolding e expand_explicit containsPoint_explicit box_no_NaN_explicit n
    by (intro conjI lo_takes hi_takes) simp_all
qed


lemma loop_contains:
  assumes "box_no_NaN out"
    and "box3_containsPoint out p \<or>
         (\<exists>j x y z. i \<le> j \<and> j < 8 \<and> vec3_transformMat4 (transformMat4_corner box j) mat = [Fin x, Fin y, Fin z] \<and> p = [Fin x, Fin y, Fin z])"
  shows "box3_containsPoint (transformMat4_loop box mat i out) p"
  using assms
proof (induction box mat i out rule: transformMat4_loop.induct)
  case (1 box mat i out)
  show ?case
  proof (cases "i < 8")
    case False
    with "1.prems" show ?thesis by (subst transformMat4_loop.simps) auto
  next
    case True
    let ?c = "vec3_transformMat4 (transformMat4_corner box i) mat"
    let ?out = "transformMat4_expand out ?c"
    have n: "box_no_NaN ?out" using "1.prems"(1) by (rule expand_no_NaN)
    have l: "length out = 6" using "1.prems"(1) by (simp add: box_no_NaN_def)
    have "box3_containsPoint ?out p \<or>
         (\<exists>j x y z. i + 1 \<le> j \<and> j < 8 \<and> vec3_transformMat4 (transformMat4_corner box j) mat = [Fin x, Fin y, Fin z] \<and> p = [Fin x, Fin y, Fin z])"
      using "1.prems"(2)
    proof
      assume "box3_containsPoint out p"
      then show ?thesis using expand_keeps[OF l] by blast
    next
      assume "\<exists>j x y z. i \<le> j \<and> j < 8 \<and> vec3_transformMat4 (transformMat4_corner box j) mat = [Fin x, Fin y, Fin z] \<and> p = [Fin x, Fin y, Fin z]"
      then obtain j x y z where j: "i \<le> j" "j < 8"
         "vec3_transformMat4 (transformMat4_corner box j) mat = [Fin x, Fin y, Fin z]" "p = [Fin x, Fin y, Fin z]"
        by blast
      show ?thesis
      proof (cases "j = i")
        case True
        then show ?thesis using expand_takes[OF "1.prems"(1), of x y z] j(3,4) by simp
      next
        case False
        then have "i + 1 \<le> j" using j(1) by simp
        then show ?thesis using j by blast
      qed
    qed
    from "1.IH"[OF True n this] True show ?thesis
      by (subst transformMat4_loop.simps) simp
  qed
qed



lemma transformMat4_Fin:
  assumes "length m = 16"
  shows "vec3_transformMat4 (map Fin [x, y, z]) (map Fin m) =
     [Fin (m ! 0 * x + m ! 4 * y + m ! 8 * z + m ! 12),
      Fin (m ! 1 * x + m ! 5 * y + m ! 9 * z + m ! 13),
      Fin (m ! 2 * x + m ! 6 * y + m ! 10 * z + m ! 14)]"
  using assms by (simp add: vec3_transformMat4_def)

lemma corner_index:
  assumes "cx = b0 \<or> cx = b3" and "cy = b1 \<or> cy = b4" and "cz = b2 \<or> cz = b5"
  shows "\<exists>j<8. transformMat4_corner (map Fin [b0, b1, b2, b3, b4, b5]) j = map Fin [cx, cy, cz]"
proof -
  have c: "transformMat4_corner (map Fin [b0, b1, b2, b3, b4, b5]) 0 = map Fin [b0, b1, b2]"
    "transformMat4_corner (map Fin [b0, b1, b2, b3, b4, b5]) 1 = map Fin [b3, b1, b2]"
    "transformMat4_corner (map Fin [b0, b1, b2, b3, b4, b5]) 2 = map Fin [b0, b4, b2]"
    "transformMat4_corner (map Fin [b0, b1, b2, b3, b4, b5]) 3 = map Fin [b3, b4, b2]"
    "transformMat4_corner (map Fin [b0, b1, b2, b3, b4, b5]) 4 = map Fin [b0, b1, b5]"
    "transformMat4_corner (map Fin [b0, b1, b2, b3, b4, b5]) 5 = map Fin [b3, b1, b5]"
    "transformMat4_corner (map Fin [b0, b1, b2, b3, b4, b5]) 6 = map Fin [b0, b4, b5]"
    "transformMat4_corner (map Fin [b0, b1, b2, b3, b4, b5]) 7 = map Fin [b3, b4, b5]"
    by (simp_all add: transformMat4_corner_def)
  have n: "(0::nat) < 8" "(1::nat) < 8" "(2::nat) < 8" "(3::nat) < 8" "(4::nat) < 8"
    "(5::nat) < 8" "(6::nat) < 8" "(7::nat) < 8" by simp_all
  from assms show ?thesis
    using c n by (elim disjE) blast+
qed

text \<open>
  C7: for every valid box with real bounds and every 4x4 matrix with real entries, each
  of the eight corners of the box (every choice of minimum or maximum per axis),
  transformed through the matrix, lies in the box that \<^verbatim>\<open>transformMat4\<close> returns,
  boundaries included.
\<close>

theorem transformMat4_contains_corners:
  fixes m :: "real list"
  assumes "length m = 16"
    and "box3_valid (map Fin [b0, b1, b2, b3, b4, b5])"
    and "cx = b0 \<or> cx = b3" and "cy = b1 \<or> cy = b4" and "cz = b2 \<or> cz = b5"
  shows "box3_containsPoint
           (box3_transformMat4 (map Fin [b0, b1, b2, b3, b4, b5]) (map Fin m))
           (vec3_transformMat4 (map Fin [cx, cy, cz]) (map Fin m))"
proof -
  from corner_index[OF assms(3-5)] obtain j where j: "j < 8"
    "transformMat4_corner (map Fin [b0, b1, b2, b3, b4, b5]) j = map Fin [cx, cy, cz]"
    by blast
  have init: "box_no_NaN [PInf, PInf, PInf, NInf, NInf, NInf]"
    by (simp add: box_no_NaN_explicit)
  show ?thesis
    unfolding box3_transformMat4_def
    apply (rule loop_contains[OF init])
    apply (rule disjI2)
    apply (rule exI[of _ j])
    using j transformMat4_Fin[OF assms(1)] by simp
qed


theorem transformMat4_contains_corners_witness:
  "length rotZ45 = 16 \<and> box3_valid (map Fin [0, 0, 0, 1, 1, 1]) \<and>
   box3_containsPoint
     (box3_transformMat4 (map Fin [0, 0, 0, 1, 1, 1]) (map Fin rotZ45))
     (vec3_transformMat4 (map Fin [0, 0, 0]) (map Fin rotZ45)) \<and>
   box3_containsPoint
     (box3_transformMat4 (map Fin [0, 0, 0, 1, 1, 1]) (map Fin rotZ45))
     (vec3_transformMat4 (map Fin [1, 0, 0]) (map Fin rotZ45)) \<and>
   box3_containsPoint
     (box3_transformMat4 (map Fin [0, 0, 0, 1, 1, 1]) (map Fin rotZ45))
     (vec3_transformMat4 (map Fin [0, 1, 0]) (map Fin rotZ45)) \<and>
   box3_containsPoint
     (box3_transformMat4 (map Fin [0, 0, 0, 1, 1, 1]) (map Fin rotZ45))
     (vec3_transformMat4 (map Fin [1, 1, 0]) (map Fin rotZ45)) \<and>
   box3_containsPoint
     (box3_transformMat4 (map Fin [0, 0, 0, 1, 1, 1]) (map Fin rotZ45))
     (vec3_transformMat4 (map Fin [0, 0, 1]) (map Fin rotZ45)) \<and>
   box3_containsPoint
     (box3_transformMat4 (map Fin [0, 0, 0, 1, 1, 1]) (map Fin rotZ45))
     (vec3_transformMat4 (map Fin [1, 0, 1]) (map Fin rotZ45)) \<and>
   box3_containsPoint
     (box3_transformMat4 (map Fin [0, 0, 0, 1, 1, 1]) (map Fin rotZ45))
     (vec3_transformMat4 (map Fin [0, 1, 1]) (map Fin rotZ45)) \<and>
   box3_containsPoint
     (box3_transformMat4 (map Fin [0, 0, 0, 1, 1, 1]) (map Fin rotZ45))
     (vec3_transformMat4 (map Fin [1, 1, 1]) (map Fin rotZ45))"
proof -
  have l: "length rotZ45 = 16" by (simp add: rotZ45_def)
  have v: "box3_valid (map Fin [0, 0, 0, 1, 1, 1])" by (simp add: box3_valid_def)
  from l v
    transformMat4_contains_corners[OF l v, of 0 0 0]
    transformMat4_contains_corners[OF l v, of 1 0 0]
    transformMat4_contains_corners[OF l v, of 0 1 0]
    transformMat4_contains_corners[OF l v, of 1 1 0]
    transformMat4_contains_corners[OF l v, of 0 0 1]
    transformMat4_contains_corners[OF l v, of 1 0 1]
    transformMat4_contains_corners[OF l v, of 0 1 1]
    transformMat4_contains_corners[OF l v, of 1 1 1]
  show ?thesis by simp
qed

subsection \<open>Ray against triangle\<close>

text \<open>
  C8: for every ray and every triangle \<open>a, b, c\<close> with
  \<open>dot(direction, (b - a) \<times> (c - a)) = 0\<close>, \<^verbatim>\<open>intersectsTriangle\<close> reports
  \<open>hit = false\<close>, whatever \<^verbatim>\<open>backfaceCulling\<close> is and whatever the result object held.
\<close>

theorem parallel_ray_misses:
  assumes "vec3_dot (direction ray) (vec3_cross (vec3_subtract b a) (vec3_subtract c a)) = Fin 0"
  shows "hit (raycast3_intersectsTriangle out ray a b c backfaceCulling) = False"
  using assms by (simp add: raycast3_intersectsTriangle_def Let_def)

theorem parallel_ray_misses_witness:
  "vec3_dot (direction ray_in_plane)
     (vec3_cross (vec3_subtract tri_b tri_a) (vec3_subtract tri_c tri_a)) = Fin 0 \<and>
   hit (raycast3_intersectsTriangle stale_result ray_in_plane tri_a tri_b tri_c True) = False \<and>
   hit (raycast3_intersectsTriangle stale_result ray_in_plane tri_a tri_b tri_c False) = False"
proof -
  have z: "vec3_dot (direction ray_in_plane)
     (vec3_cross (vec3_subtract tri_b tri_a) (vec3_subtract tri_c tri_a)) = Fin 0"
    by (simp add: ray_in_plane_def tri_a_def tri_b_def tri_c_def vec3_dot_def vec3_cross_def
        vec3_subtract_def)
  from z parallel_ray_misses[OF z, of stale_result True]
    parallel_ray_misses[OF z, of stale_result False]
  show ?thesis by simp
qed

lemma cont_miss_resets:
  fixes out :: IntersectsTriangleResult
  shows "hit (intersectsTriangle_cont out ray a edge1 edge2 normal DdN sign) = False \<Longrightarrow>
   intersectsTriangle_cont out ray a edge1 edge2 normal DdN sign =
     \<lparr>fraction = Fin 0, hit = False, frontFacing = False\<rparr>"
  by (simp add: intersectsTriangle_cont_def Let_def split: if_splits)

text \<open>
  C10: whenever \<^verbatim>\<open>intersectsTriangle\<close> reports \<open>hit = false\<close>, in whichever branch, the
  result object is exactly \<open>{fraction: 0, hit: false, frontFacing: false}\<close>: it also has
  \<open>fraction = 0\<close> and \<open>frontFacing = false\<close>, whatever it held before the call.
\<close>

theorem miss_resets_result:
  fixes out :: IntersectsTriangleResult
  assumes "hit (raycast3_intersectsTriangle out ray a b c backfaceCulling) = False"
  shows "raycast3_intersectsTriangle out ray a b c backfaceCulling =
           \<lparr>fraction = Fin 0, hit = False, frontFacing = False\<rparr> \<and>
         fraction (raycast3_intersectsTriangle out ray a b c backfaceCulling) = Fin 0 \<and>
         frontFacing (raycast3_intersectsTriangle out ray a b c backfaceCulling) = False"
proof -
  have "raycast3_intersectsTriangle out ray a b c backfaceCulling =
      \<lparr>fraction = Fin 0, hit = False, frontFacing = False\<rparr>"
    using assms cont_miss_resets
    by (simp add: raycast3_intersectsTriangle_def Let_def split: if_splits)
  then show ?thesis by simp
qed

theorem miss_resets_result_witness:
  "hit (raycast3_intersectsTriangle stale_result ray_away tri_a tri_b tri_c False) = False \<and>
   fraction (raycast3_intersectsTriangle stale_result ray_away tri_a tri_b tri_c False) = Fin 0 \<and>
   frontFacing (raycast3_intersectsTriangle stale_result ray_away tri_a tri_b tri_c False) = False"
proof -
  have h: "hit (raycast3_intersectsTriangle stale_result ray_away tri_a tri_b tri_c False) = False"
    by (simp add: raycast3_intersectsTriangle_def intersectsTriangle_cont_def Let_def
        ray_away_def tri_a_def tri_b_def tri_c_def stale_result_def
        vec3_dot_def vec3_cross_def vec3_subtract_def)
  from h miss_resets_result[OF h] show ?thesis by simp
qed

subsection \<open>The triangle test on a single point\<close>








subsection \<open>Orthonormal frames over the reals\<close>

lemma sq_sum_identity:
  fixes a b c d e f g h i :: real
  shows "(1 - (a*a + d*d + g*g))\<^sup>2 + (1 - (b*b + e*e + h*h))\<^sup>2 + (1 - (c*c + f*f + i*i))\<^sup>2
         + 2 * (a*b + d*e + g*h)\<^sup>2 + 2 * (a*c + d*f + g*i)\<^sup>2 + 2 * (b*c + e*f + h*i)\<^sup>2
       = (1 - (a*a + b*b + c*c))\<^sup>2 + (1 - (d*d + e*e + f*f))\<^sup>2 + (1 - (g*g + h*h + i*i))\<^sup>2
         + 2 * (a*d + b*e + c*f)\<^sup>2 + 2 * (a*g + b*h + c*i)\<^sup>2 + 2 * (d*g + e*h + f*i)\<^sup>2"
  by (simp add: power2_eq_square algebra_simps)

lemma six_squares_zero:
  fixes x1 x2 x3 x4 x5 x6 :: real
  assumes "x1\<^sup>2 + x2\<^sup>2 + x3\<^sup>2 + 2 * x4\<^sup>2 + 2 * x5\<^sup>2 + 2 * x6\<^sup>2 = 0"
  shows "x1 = 0 \<and> x2 = 0 \<and> x3 = 0 \<and> x4 = 0 \<and> x5 = 0 \<and> x6 = 0"
proof -
  have n: "0 \<le> x1\<^sup>2" "0 \<le> x2\<^sup>2" "0 \<le> x3\<^sup>2" "0 \<le> x4\<^sup>2" "0 \<le> x5\<^sup>2" "0 \<le> x6\<^sup>2" by simp_all
  from assms n have "x1\<^sup>2 = 0" "x2\<^sup>2 = 0" "x3\<^sup>2 = 0" "x4\<^sup>2 = 0" "x5\<^sup>2 = 0" "x6\<^sup>2 = 0"
    by linarith+
  then show ?thesis by simp
qed

lemma rows_orthonormal:
  fixes a b c d e f g h i :: real
  assumes "frame (a, b, c) (d, e, f) (g, h, i)"
  shows "a*a + d*d + g*g = 1" "b*b + e*e + h*h = 1" "c*c + f*f + i*i = 1"
    "a*b + d*e + g*h = 0" "a*c + d*f + g*i = 0" "b*c + e*f + h*i = 0"
proof -
  from assms have c: "a*a + b*b + c*c = 1" "d*d + e*e + f*f = 1" "g*g + h*h + i*i = 1"
    "a*d + b*e + c*f = 0" "a*g + b*h + c*i = 0" "d*g + e*h + f*i = 0"
    by (simp_all add: frame_def)
  have "(1 - (a*a + d*d + g*g))\<^sup>2 + (1 - (b*b + e*e + h*h))\<^sup>2 + (1 - (c*c + f*f + i*i))\<^sup>2
         + 2 * (a*b + d*e + g*h)\<^sup>2 + 2 * (a*c + d*f + g*i)\<^sup>2 + 2 * (b*c + e*f + h*i)\<^sup>2 = 0"
    unfolding sq_sum_identity c by simp
  from six_squares_zero[OF this]
  show "a*a + d*d + g*g = 1" "b*b + e*e + h*h = 1" "c*c + f*f + i*i = 1"
    "a*b + d*e + g*h = 0" "a*c + d*f + g*i = 0" "b*c + e*f + h*i = 0"
    by simp_all
qed

lemma frame_complete:
  assumes "frame U V W"
  shows "rdot p U * rdot U q + rdot p V * rdot V q + rdot p W * rdot W q = rdot p q"
proof -
  obtain a b c where U: "U = (a, b, c)" by (cases U)
  obtain d e f where V: "V = (d, e, f)" by (cases V)
  obtain g h i where W: "W = (g, h, i)" by (cases W)
  obtain p0 p1 p2 where p: "p = (p0, p1, p2)" by (cases p)
  obtain q0 q1 q2 where q: "q = (q0, q1, q2)" by (cases q)
  note r = rows_orthonormal[OF assms[unfolded U V W]]
  have "rdot p U * rdot U q + rdot p V * rdot V q + rdot p W * rdot W q =
      p0 * q0 * (a*a + d*d + g*g) + p1 * q1 * (b*b + e*e + h*h) + p2 * q2 * (c*c + f*f + i*i)
      + (p0 * q1 + p1 * q0) * (a*b + d*e + g*h) + (p0 * q2 + p2 * q0) * (a*c + d*f + g*i)
      + (p1 * q2 + p2 * q1) * (b*c + e*f + h*i)"
    unfolding U V W p q by (simp add: algebra_simps)
  also have "\<dots> = rdot p q" unfolding r p q by simp
  finally show ?thesis .
qed











lemma orthonormal_rot345: "orthonormal rot345"
  by (simp add: orthonormal_def frame_def rcol_def rot345_def)


subsection \<open>Clamping a point that is inside an OBB\<close>

lemma clamp_id: "\<bar>l\<bar> \<le> h \<Longrightarrow> max (- h) (min h l) = (l::real)"
  by (auto simp: max_def min_def)

text \<open>
  C5: for every OBB with real centre and half extents whose rotation is orthonormal and
  every point \<open>p\<close> with real coordinates, if \<^verbatim>\<open>containsPoint(obb, p)\<close> is true then
  \<^verbatim>\<open>clampPoint(out, obb, p)\<close> returns exactly \<open>p\<close>.
\<close>

theorem clampPoint_inside:
  assumes "orthonormal r"
    and "obb3_containsPoint (real_obb [c0, c1, c2] [h0, h1, h2] r) (map Fin [x, y, z])"
  shows "obb3_clampPoint (real_obb [c0, c1, c2] [h0, h1, h2] r) (map Fin [x, y, z]) = map Fin [x, y, z]"
proof -
  from assms(1) have len: "length r = 9" and fr: "frame (rcol r 0) (rcol r 1) (rcol r 2)"
    by (simp_all add: orthonormal_def)
  define D :: rvec where "D = (x - c0, y - c1, z - c2)"
  define l0 where "l0 = rdot D (rcol r 0)"
  define l1 where "l1 = rdot D (rcol r 1)"
  define l2 where "l2 = rdot D (rcol r 2)"
  note defs = l0_def l1_def l2_def D_def rcol_def
  have inside: "\<bar>l0\<bar> \<le> h0" "\<bar>l1\<bar> \<le> h1" "\<bar>l2\<bar> \<le> h2"
    using assms(2) len by (simp_all add: obb3_containsPoint_def real_obb_def Let_def defs)
  have e: "obb3_clampPoint (real_obb [c0, c1, c2] [h0, h1, h2] r) (map Fin [x, y, z]) =
      [Fin (c0 + r ! 0 * max (- h0) (min h0 l0) + r ! 3 * max (- h1) (min h1 l1) + r ! 6 * max (- h2) (min h2 l2)),
       Fin (c1 + r ! 1 * max (- h0) (min h0 l0) + r ! 4 * max (- h1) (min h1 l1) + r ! 7 * max (- h2) (min h2 l2)),
       Fin (c2 + r ! 2 * max (- h0) (min h0 l0) + r ! 5 * max (- h1) (min h1 l1) + r ! 8 * max (- h2) (min h2 l2))]"
    using len by (simp add: obb3_clampPoint_def real_obb_def Let_def defs)
  have comp: "r ! 0 * l0 + r ! 3 * l1 + r ! 6 * l2 = x - c0"
    "r ! 1 * l0 + r ! 4 * l1 + r ! 7 * l2 = y - c1"
    "r ! 2 * l0 + r ! 5 * l1 + r ! 8 * l2 = z - c2"
    using frame_complete[OF fr, of D "(1, 0, 0)"] frame_complete[OF fr, of D "(0, 1, 0)"]
      frame_complete[OF fr, of D "(0, 0, 1)"]
    by (simp_all add: defs mult.commute)
  show ?thesis
    unfolding e clamp_id[OF inside(1)] clamp_id[OF inside(2)] clamp_id[OF inside(3)]
    using comp by simp
qed

theorem clampPoint_inside_witness:
  "orthonormal rot345 \<and>
   obb3_containsPoint (real_obb [1, 2, 3] [1, 1, 1] rot345) (map Fin [3 / 2, 5 / 2, 3]) \<and>
   obb3_clampPoint (real_obb [1, 2, 3] [1, 1, 1] rot345) (map Fin [3 / 2, 5 / 2, 3]) =
     map Fin [3 / 2, 5 / 2, 3]"
proof -
  have c: "obb3_containsPoint (real_obb [1, 2, 3] [1, 1, 1] rot345) (map Fin [3 / 2, 5 / 2, 3])"
    by (simp add: obb3_containsPoint_def real_obb_def rot345_def Let_def)
  from orthonormal_rot345 c clampPoint_inside[OF orthonormal_rot345 c] show ?thesis by simp
qed

subsection \<open>Symmetry of the OBB-OBB test\<close>


lemma dot_real: "vec3_dot [Fin x0, Fin x1, Fin x2] [Fin y0, Fin y1, Fin y2] = Fin (rdot (x0, x1, x2) (y0, y1, y2))"
  by (simp add: vec3_dot_def)


















subsection \<open>Touching boxes\<close>

text \<open>
  C9: two valid boxes that touch exactly -- on some axis \<open>k\<close> the maximum of one equals
  the minimum of the other, and on each remaining axis the two closed intervals have a
  common point \<open>p\<close> -- intersect; in particular \<open>[0,0,0,1,1,1]\<close> and \<open>[1,0,0,2,1,1]\<close> do.
\<close>

theorem touching_boxes_intersect:
  assumes "box3_valid boxA" and "box3_valid boxB" and "k < 3"
    and "boxA ! (k + 3) = boxB ! k \<or> boxB ! (k + 3) = boxA ! k"
    and "\<And>j. j < 3 \<Longrightarrow> j \<noteq> k \<Longrightarrow>
           boxA ! j \<le> p ! j \<and> p ! j \<le> boxA ! (j + 3) \<and>
           boxB ! j \<le> p ! j \<and> p ! j \<le> boxB ! (j + 3)"
  shows "box3_intersectsBox3 boxA boxB"
proof -
  have ax: "boxA ! j \<le> boxB ! (j + 3) \<and> boxB ! j \<le> boxA ! (j + 3)" if "j < 3" for j
  proof (cases "j = k")
    case True
    have k: "k = 0 \<or> k = 1 \<or> k = 2" using assms(3) by auto
    have va: "boxA ! k \<le> boxA ! (k + 3)"
      using assms(1) k unfolding box3_valid_def by (elim disjE) simp_all
    have vb: "boxB ! k \<le> boxB ! (k + 3)"
      using assms(2) k unfolding box3_valid_def by (elim disjE) simp_all
    from assms(4) show ?thesis
    proof
      assume e: "boxA ! (k + 3) = boxB ! k"
      have "boxA ! k \<le> boxB ! (k + 3)" using va vb e jsnum_le_trans by metis
      moreover have "boxB ! k \<le> boxA ! (k + 3)" using e jsnum_le_refl[OF vb] by simp
      ultimately show ?thesis using True by simp
    next
      assume e: "boxB ! (k + 3) = boxA ! k"
      have "boxB ! k \<le> boxA ! (k + 3)" using va vb e jsnum_le_trans by metis
      moreover have "boxA ! k \<le> boxB ! (k + 3)" using e jsnum_le_refl[OF va] by simp
      ultimately show ?thesis using True by simp
    qed
  next
    case False
    from assms(5)[OF that False] show ?thesis using jsnum_le_trans by blast
  qed
  from ax[of 0] ax[of 1] ax[of 2] show ?thesis
    unfolding box3_intersectsBox3_def by simp
qed

theorem touching_boxes_intersect_witness:
  "box3_intersectsBox3 [Fin 0, Fin 0, Fin 0, Fin 1, Fin 1, Fin 1]
                       [Fin 1, Fin 0, Fin 0, Fin 2, Fin 1, Fin 1]"
proof (rule touching_boxes_intersect[where k = 0 and p = "[Fin 1, Fin 0, Fin 0]"])
  show "box3_valid [Fin 0, Fin 0, Fin 0, Fin 1, Fin 1, Fin 1]"
    by (simp add: box3_valid_def)
  show "box3_valid [Fin 1, Fin 0, Fin 0, Fin 2, Fin 1, Fin 1]"
    by (simp add: box3_valid_def)
  show "(0::nat) < 3" by simp
  show "[Fin 0, Fin 0, Fin 0, Fin 1, Fin 1, Fin 1] ! (0 + 3) =
          [Fin 1, Fin 0, Fin 0, Fin 2, Fin 1, Fin 1] ! 0
      \<or> [Fin 1, Fin 0, Fin 0, Fin 2, Fin 1, Fin 1] ! (0 + 3) =
          [Fin 0, Fin 0, Fin 0, Fin 1, Fin 1, Fin 1] ! 0"
    by simp
next
  fix j :: nat assume "j < 3" "j \<noteq> 0"
  then have "j = 1 \<or> j = 2" by auto
  then show "[Fin 0, Fin 0, Fin 0, Fin 1, Fin 1, Fin 1] ! j \<le> [Fin 1, Fin 0, Fin 0] ! j \<and>
         [Fin 1, Fin 0, Fin 0] ! j \<le> [Fin 0, Fin 0, Fin 0, Fin 1, Fin 1, Fin 1] ! (j + 3) \<and>
         [Fin 1, Fin 0, Fin 0, Fin 2, Fin 1, Fin 1] ! j \<le> [Fin 1, Fin 0, Fin 0] ! j \<and>
         [Fin 1, Fin 0, Fin 0] ! j \<le> [Fin 1, Fin 0, Fin 0, Fin 2, Fin 1, Fin 1] ! (j + 3)"
    by auto
qed

end
